theory Spec2Isabelle
  imports Main
begin

section \<open>The constant-expression evaluator of \<^verbatim>\<open>lib/Core/ExecutorUtil.cpp\<close>\<close>

text \<open>
  The theory embeds \<^verbatim>\<open>Executor::evalConstantExpr\<close>: the switch over the opcode
  of an LLVM constant expression that folds it into a KLEE expression. The code that the
  switch calls but that lives in other files (the methods of \<^verbatim>\<open>klee::ConstantExpr\<close>
  and \<^verbatim>\<open>klee::FConstantExpr\<close>, LLVM's data layout) is taken as a parameter of the fold.
\<close>

subsection \<open>LLVM side: types, opcodes, predicates, constants\<close>

text \<open>
  \<^verbatim>\<open>llvm::Type\<close>, as far as the evaluator looks at it: \<^verbatim>\<open>dyn_cast<StructType>\<close>
  and \<^verbatim>\<open>cast<SequentialType>\<close> (pointers, arrays and vectors are the sequential types
  of the LLVM versions this file compiles against).
\<close>

datatype Type =
    IntegerTy nat
  | FloatTy
  | DoubleTy
  | PointerTy Type
  | ArrayTy Type nat
  | VectorTy Type nat
  | StructTy "Type list"

text \<open>
  The values of \<^verbatim>\<open>ce->getOpcode()\<close>. The first 34 are the \<^verbatim>\<open>case\<close> labels of the
  switch, written \<open>Instruction.Add\<close> as the source writes \<^verbatim>\<open>Instruction::Add\<close>; the others
  are opcodes a constant expression can carry that the switch has no label for, and
  \<open>OtherOpcode n\<close> is any other opcode number.
\<close>

datatype Instruction =
    Trunc | ZExt | SExt
  | Add | Sub | Mul | SDiv | UDiv | SRem | URem
  | And | Or | Xor | Shl | LShr | AShr
  | BitCast | IntToPtr | PtrToInt | GetElementPtr
  | ICmp | Select
  | FAdd | FSub | FMul | FDiv | FRem
  | FPTrunc | FPExt | UIToFP | SIToFP | FPToUI | FPToSI
  | FCmp
  | AddrSpaceCast | ExtractElement | InsertElement | ShuffleVector
  | ExtractValue | InsertValue
  | OtherOpcode nat

text \<open>\<^verbatim>\<open>llvm::CmpInst::Predicate\<close>: the 16 floating-point and the 10 integer predicates.\<close>

datatype Predicate =
    FCMP_FALSE | FCMP_OEQ | FCMP_OGT | FCMP_OGE | FCMP_OLT | FCMP_OLE
  | FCMP_ONE | FCMP_ORD | FCMP_UNO | FCMP_UEQ | FCMP_UGT | FCMP_UGE
  | FCMP_ULT | FCMP_ULE | FCMP_UNE | FCMP_TRUE
  | ICMP_EQ | ICMP_NE | ICMP_UGT | ICMP_UGE | ICMP_ULT | ICMP_ULE
  | ICMP_SGT | ICMP_SGE | ICMP_SLT | ICMP_SLE

text \<open>\<^verbatim>\<open>llvm::APFloat::roundingMode\<close>.\<close>

datatype roundingMode =
    rmNearestTiesToEven | rmTowardPositive | rmTowardNegative | rmTowardZero
  | rmNearestTiesToAway

text \<open>
  \<^verbatim>\<open>llvm::Constant\<close>: an integer literal (bit width, value below
  \<open>2 ^ width\<close>), a floating-point literal of
  a float type (the payload \<open>'f\<close> is whatever the float builder computes with), or a
  constant expression with its declared type, opcode, predicate and operands.
\<close>

datatype 'f llvm_Constant =
    ConstantInt nat nat
  | ConstantFP Type 'f
  | ConstantExpr Type Instruction Predicate "'f llvm_Constant list"

fun getType :: "'f llvm_Constant \<Rightarrow> Type" where
  "getType (ConstantInt w v) = IntegerTy w"
| "getType (ConstantFP ty f) = ty"
| "getType (ConstantExpr ty opc p ops) = ty"

subsection \<open>KLEE side: folded expressions, failures\<close>

text \<open>\<^verbatim>\<open>klee::ConstantExpr\<close>: a bit vector, its width and its value as an unsigned number.\<close>

record klee_ConstantExpr =
  width :: nat
  "value" :: nat

text \<open>
  \<^verbatim>\<open>ref<klee::Expr>\<close> as the evaluator produces it: an integer constant or a float
  constant. A null handle (\<^verbatim>\<open>ref<Expr> op1(0)\<close>) is \<open>None\<close> of \<open>'f Expr option\<close>.
\<close>

datatype 'f Expr =
    Constant klee_ConstantExpr
  | FConstant 'f

text \<open>
  The ways the process stops instead of returning: \<^verbatim>\<open>abort()\<close> after the dump of the
  node and the message with its opcode; a failed \<^verbatim>\<open>assert\<close>; \<^verbatim>\<open>cast<>\<close> applied to a
  null handle or to a value of the other class; a null handle used or returned; a query
  outside the data layout; anything a builder method raises. Where the assertion inside
  \<^verbatim>\<open>cast<>\<close> or inside LLVM's layout is compiled out, the C++ has undefined behaviour; the
  model stops there as well.
\<close>

datatype Failure =
    UnknownConstantExprType Instruction
  | AssertionFailed string
  | IncompatibleCast
  | NullExpr
  | LayoutError
  | BuilderError nat

definition bindE :: "Failure + 'a \<Rightarrow> ('a \<Rightarrow> Failure + 'b) \<Rightarrow> Failure + 'b" where
  "bindE m f = (case m of Inl e \<Rightarrow> Inl e | Inr x \<Rightarrow> f x)"

definition mapE :: "('a \<Rightarrow> 'b) \<Rightarrow> Failure + 'a \<Rightarrow> Failure + 'b" where
  "mapE f m = (case m of Inl e \<Rightarrow> Inl e | Inr x \<Rightarrow> Inr (f x))"

text \<open>\<^verbatim>\<open>cast<ConstantExpr>(op)\<close> and \<^verbatim>\<open>cast<FConstantExpr>(op)\<close>.\<close>

fun cast_ConstantExpr :: "'f Expr option \<Rightarrow> Failure + klee_ConstantExpr" where
  "cast_ConstantExpr None = Inl IncompatibleCast"
| "cast_ConstantExpr (Some (Constant c)) = Inr c"
| "cast_ConstantExpr (Some (FConstant f)) = Inl IncompatibleCast"

fun cast_FConstantExpr :: "'f Expr option \<Rightarrow> Failure + 'f" where
  "cast_FConstantExpr None = Inl IncompatibleCast"
| "cast_FConstantExpr (Some (Constant c)) = Inl IncompatibleCast"
| "cast_FConstantExpr (Some (FConstant f)) = Inr f"

text \<open>
  Modelled from the spec: \<^verbatim>\<open>ConstantExpr::alloc(v, w)\<close> (\<^verbatim>\<open>klee/Expr.h\<close> is not among the
  sources), the spec's \<open>integerConstant(value, width)\<close>, which "builds a width-exact
  bit-vector constant".
\<close>

definition alloc :: "nat \<Rightarrow> nat \<Rightarrow> klee_ConstantExpr" where
  "alloc v w = \<lparr>width = w, value = v mod 2 ^ w\<rparr>"

text \<open>
  Modelled from the spec: \<^verbatim>\<open>Expr::isTrue()\<close> (\<^verbatim>\<open>klee/Expr.h\<close> is not among the sources):
  the expression is "a true boolean constant", a one-bit integer constant that is not 0.
\<close>

fun isTrue :: "'f Expr \<Rightarrow> bool" where
  "isTrue (Constant c) = (width c = 1 \<and> value c \<noteq> 0)"
| "isTrue (FConstant f) = False"

subsection \<open>The collaborators, as parameters\<close>

text \<open>
  The methods of \<^verbatim>\<open>klee::ConstantExpr\<close> the switch calls (the spec's Expression
  Builder). Each may stop the process instead of returning.
\<close>

record ExprBuilder =
  Extract :: "klee_ConstantExpr \<Rightarrow> nat \<Rightarrow> nat \<Rightarrow> Failure + klee_ConstantExpr"
  ZExt :: "klee_ConstantExpr \<Rightarrow> nat \<Rightarrow> Failure + klee_ConstantExpr"
  SExt :: "klee_ConstantExpr \<Rightarrow> nat \<Rightarrow> Failure + klee_ConstantExpr"
  Add :: "klee_ConstantExpr \<Rightarrow> klee_ConstantExpr \<Rightarrow> Failure + klee_ConstantExpr"
  Sub :: "klee_ConstantExpr \<Rightarrow> klee_ConstantExpr \<Rightarrow> Failure + klee_ConstantExpr"
  Mul :: "klee_ConstantExpr \<Rightarrow> klee_ConstantExpr \<Rightarrow> Failure + klee_ConstantExpr"
  SDiv :: "klee_ConstantExpr \<Rightarrow> klee_ConstantExpr \<Rightarrow> Failure + klee_ConstantExpr"
  UDiv :: "klee_ConstantExpr \<Rightarrow> klee_ConstantExpr \<Rightarrow> Failure + klee_ConstantExpr"
  SRem :: "klee_ConstantExpr \<Rightarrow> klee_ConstantExpr \<Rightarrow> Failure + klee_ConstantExpr"
  URem :: "klee_ConstantExpr \<Rightarrow> klee_ConstantExpr \<Rightarrow> Failure + klee_ConstantExpr"
  And :: "klee_ConstantExpr \<Rightarrow> klee_ConstantExpr \<Rightarrow> Failure + klee_ConstantExpr"
  Or :: "klee_ConstantExpr \<Rightarrow> klee_ConstantExpr \<Rightarrow> Failure + klee_ConstantExpr"
  Xor :: "klee_ConstantExpr \<Rightarrow> klee_ConstantExpr \<Rightarrow> Failure + klee_ConstantExpr"
  Shl :: "klee_ConstantExpr \<Rightarrow> klee_ConstantExpr \<Rightarrow> Failure + klee_ConstantExpr"
  LShr :: "klee_ConstantExpr \<Rightarrow> klee_ConstantExpr \<Rightarrow> Failure + klee_ConstantExpr"
  AShr :: "klee_ConstantExpr \<Rightarrow> klee_ConstantExpr \<Rightarrow> Failure + klee_ConstantExpr"
  Eq :: "klee_ConstantExpr \<Rightarrow> klee_ConstantExpr \<Rightarrow> Failure + klee_ConstantExpr"
  Ne :: "klee_ConstantExpr \<Rightarrow> klee_ConstantExpr \<Rightarrow> Failure + klee_ConstantExpr"
  Ugt :: "klee_ConstantExpr \<Rightarrow> klee_ConstantExpr \<Rightarrow> Failure + klee_ConstantExpr"
  Uge :: "klee_ConstantExpr \<Rightarrow> klee_ConstantExpr \<Rightarrow> Failure + klee_ConstantExpr"
  Ult :: "klee_ConstantExpr \<Rightarrow> klee_ConstantExpr \<Rightarrow> Failure + klee_ConstantExpr"
  Ule :: "klee_ConstantExpr \<Rightarrow> klee_ConstantExpr \<Rightarrow> Failure + klee_ConstantExpr"
  Sgt :: "klee_ConstantExpr \<Rightarrow> klee_ConstantExpr \<Rightarrow> Failure + klee_ConstantExpr"
  Sge :: "klee_ConstantExpr \<Rightarrow> klee_ConstantExpr \<Rightarrow> Failure + klee_ConstantExpr"
  Slt :: "klee_ConstantExpr \<Rightarrow> klee_ConstantExpr \<Rightarrow> Failure + klee_ConstantExpr"
  Sle :: "klee_ConstantExpr \<Rightarrow> klee_ConstantExpr \<Rightarrow> Failure + klee_ConstantExpr"

text \<open>
  The methods that take or produce a float (the spec's Float Expression Builder): those
  of \<^verbatim>\<open>klee::FConstantExpr\<close>, and \<^verbatim>\<open>ConstantExpr::UToF\<close> and \<^verbatim>\<open>ConstantExpr::SToF\<close>.
  The arithmetic and the conversions take the rounding mode as their last argument,
  the comparisons take none.
\<close>

record 'f FloatBuilder =
  FAdd :: "'f \<Rightarrow> 'f \<Rightarrow> roundingMode \<Rightarrow> Failure + 'f"
  FSub :: "'f \<Rightarrow> 'f \<Rightarrow> roundingMode \<Rightarrow> Failure + 'f"
  FMul :: "'f \<Rightarrow> 'f \<Rightarrow> roundingMode \<Rightarrow> Failure + 'f"
  FDiv :: "'f \<Rightarrow> 'f \<Rightarrow> roundingMode \<Rightarrow> Failure + 'f"
  FRem :: "'f \<Rightarrow> 'f \<Rightarrow> roundingMode \<Rightarrow> Failure + 'f"
  FExt :: "'f \<Rightarrow> nat \<Rightarrow> roundingMode \<Rightarrow> Failure + 'f"
  UToF :: "klee_ConstantExpr \<Rightarrow> nat \<Rightarrow> roundingMode \<Rightarrow> Failure + 'f"
  SToF :: "klee_ConstantExpr \<Rightarrow> nat \<Rightarrow> roundingMode \<Rightarrow> Failure + 'f"
  FToU :: "'f \<Rightarrow> nat \<Rightarrow> roundingMode \<Rightarrow> Failure + klee_ConstantExpr"
  FToS :: "'f \<Rightarrow> nat \<Rightarrow> roundingMode \<Rightarrow> Failure + klee_ConstantExpr"
  FOeq :: "'f \<Rightarrow> 'f \<Rightarrow> Failure + klee_ConstantExpr"
  FOgt :: "'f \<Rightarrow> 'f \<Rightarrow> Failure + klee_ConstantExpr"
  FOge :: "'f \<Rightarrow> 'f \<Rightarrow> Failure + klee_ConstantExpr"
  FOlt :: "'f \<Rightarrow> 'f \<Rightarrow> Failure + klee_ConstantExpr"
  FOle :: "'f \<Rightarrow> 'f \<Rightarrow> Failure + klee_ConstantExpr"
  FOne :: "'f \<Rightarrow> 'f \<Rightarrow> Failure + klee_ConstantExpr"
  FOrd :: "'f \<Rightarrow> 'f \<Rightarrow> Failure + klee_ConstantExpr"
  FUno :: "'f \<Rightarrow> 'f \<Rightarrow> Failure + klee_ConstantExpr"
  FUeq :: "'f \<Rightarrow> 'f \<Rightarrow> Failure + klee_ConstantExpr"
  FUgt :: "'f \<Rightarrow> 'f \<Rightarrow> Failure + klee_ConstantExpr"
  FUge :: "'f \<Rightarrow> 'f \<Rightarrow> Failure + klee_ConstantExpr"
  FUlt :: "'f \<Rightarrow> 'f \<Rightarrow> Failure + klee_ConstantExpr"
  FUle :: "'f \<Rightarrow> 'f \<Rightarrow> Failure + klee_ConstantExpr"
  FUne :: "'f \<Rightarrow> 'f \<Rightarrow> Failure + klee_ConstantExpr"

text \<open>
  What the evaluator reads from its surroundings: \<^verbatim>\<open>Context::get().getPointerWidth()\<close>,
  the data layout's \<^verbatim>\<open>getTypeSizeInBits\<close>, \<^verbatim>\<open>getStructLayout(st)->getElementOffset(i)\<close>
  and \<^verbatim>\<open>getTypeAllocSize\<close> (the last two \<^verbatim>\<open>uint64_t\<close> in LLVM), and whether the file was
  compiled with \<^verbatim>\<open>NDEBUG\<close>, which turns \<^verbatim>\<open>assert\<close> into nothing.
\<close>

record Target =
  getPointerWidth :: nat
  getTypeSizeInBits :: "Type \<Rightarrow> nat"
  getElementOffset :: "Type \<Rightarrow> nat \<Rightarrow> nat"
  getTypeAllocSize :: "Type \<Rightarrow> nat"
  NDEBUG :: bool

text \<open>
  Modelled from the spec: \<^verbatim>\<open>Executor::getWidthForLLVMType\<close> (\<^verbatim>\<open>Executor.cpp\<close> is not among
  the sources), the bit width that the "declared result type" carries: an integer type
  carries its own, the width of any other type is the data layout's.
\<close>

definition getWidthForLLVMType :: "Target \<Rightarrow> Type \<Rightarrow> nat" where
  "getWidthForLLVMType T ty = (case ty of IntegerTy w \<Rightarrow> w | _ \<Rightarrow> getTypeSizeInBits T ty)"

text \<open>The conversions of C++ to \<^verbatim>\<open>uint64_t\<close> and to \<^verbatim>\<open>unsigned\<close> (32 bits).\<close>

definition uint64_t :: "nat \<Rightarrow> nat" where
  "uint64_t n = n mod 2 ^ 64"

definition unsigned :: "nat \<Rightarrow> nat" where
  "unsigned n = n mod 2 ^ 32"

subsection \<open>The walk over the indices of a \<^verbatim>\<open>GetElementPtr\<close>\<close>

text \<open>
  Modelled from the spec: \<^verbatim>\<open>gep_type_iterator\<close> (\<^verbatim>\<open>klee/util/GetElementPtrTypeIterator.h\<close>
  is not among the sources), the spec's "type-indexed path". The iterator starts at the
  type of operand 0 and pairs each further operand with the type it indexes into:
  \<open>elementType\<close> is \<^verbatim>\<open>SequentialType::getElementType()\<close>, and \<open>gep_type_next\<close> is the
  iterator's \<^verbatim>\<open>++\<close>, which steps into the field a constant index names in a struct, into
  the element type of a sequential type, and to null from any other type.
\<close>

fun elementType :: "Type \<Rightarrow> Type option" where
  "elementType (PointerTy t) = Some t"
| "elementType (ArrayTy t n) = Some t"
| "elementType (VectorTy t n) = Some t"
| "elementType ty = None"

fun gep_type_next :: "Type option \<Rightarrow> 'f llvm_Constant \<Rightarrow> Type option" where
  "gep_type_next (Some (StructTy members)) (ConstantInt w v) =
     (if unsigned v < length members then Some (members ! unsigned v) else None)"
| "gep_type_next (Some (StructTy members)) operand = None"
| "gep_type_next (Some ty) operand = elementType ty"
| "gep_type_next None operand = None"

text \<open>
  The body of the loop, lines 95 to 115: the addend of one step. \<open>CurTy\<close> is \<^verbatim>\<open>*ii\<close>,
  \<open>operand\<close> is \<^verbatim>\<open>ii.getOperand()\<close>, \<open>ev\<close> is \<^verbatim>\<open>evalConstant\<close>. In a struct the index is
  read off the literal (\<^verbatim>\<open>cast<ConstantInt>\<close>, then \<^verbatim>\<open>(unsigned) ci->getZExtValue()\<close>) and
  the layout's offset, a \<^verbatim>\<open>uint64_t\<close>, goes to \<^verbatim>\<open>ConstantExpr::alloc\<close> as it is; LLVM asserts
  that the index is below the number of fields. Otherwise the index operand is folded,
  the allocation size of the element type is stored in \<^verbatim>\<open>unsigned elementSize\<close>, and the
  addend is the product of the zero-extended index and that size.
\<close>

definition gep_addend ::
  "('f llvm_Constant \<Rightarrow> Failure + 'f Expr) \<Rightarrow> ExprBuilder \<Rightarrow> Target \<Rightarrow> Type option \<Rightarrow>
   'f llvm_Constant \<Rightarrow> Failure + klee_ConstantExpr" where
  "gep_addend ev B T CurTy operand =
     (case CurTy of
        None \<Rightarrow> Inl IncompatibleCast
      | Some (StructTy members) \<Rightarrow>
          (case operand of
             ConstantInt w v \<Rightarrow>
               if unsigned v < length members
               then Inr (alloc (uint64_t (getElementOffset T (StructTy members) (unsigned v)))
                          (getPointerWidth T))
               else Inl LayoutError
           | _ \<Rightarrow> Inl IncompatibleCast)
      | Some ty \<Rightarrow>
          (case elementType ty of
             None \<Rightarrow> Inl IncompatibleCast
           | Some elt \<Rightarrow>
               bindE (ev operand) (\<lambda>v.
               bindE (cast_ConstantExpr (Some v)) (\<lambda>index.
               let elementSize = unsigned (getTypeAllocSize T elt) in
               bindE (ZExt B index (getPointerWidth T)) (\<lambda>index.
               Mul B index (alloc elementSize (getPointerWidth T)))))))"

text \<open>
  The loop, lines 93 to 118: for each index operand, left to right, the addend is added
  to the running base, and the iterator moves on.
\<close>

fun gep_loop ::
  "('f llvm_Constant \<Rightarrow> Failure + 'f Expr) \<Rightarrow> ExprBuilder \<Rightarrow> Target \<Rightarrow> Type option \<Rightarrow>
   'f llvm_Constant list \<Rightarrow> klee_ConstantExpr \<Rightarrow> Failure + klee_ConstantExpr" where
  "gep_loop ev B T CurTy [] base = Inr base"
| "gep_loop ev B T CurTy (operand # rest) base =
     (case gep_addend ev B T CurTy operand of
        Inl e \<Rightarrow> Inl e
      | Inr addend \<Rightarrow>
          (case Add B base addend of
             Inl e \<Rightarrow> Inl e
           | Inr base' \<Rightarrow> gep_loop ev B T (gep_type_next CurTy operand) rest base'))"

lemma gep_addend_cong:
  "ev operand = ev' operand \<Longrightarrow> gep_addend ev B T CurTy operand = gep_addend ev' B T CurTy operand"
  by (simp add: gep_addend_def split: option.splits Type.splits)

lemma gep_loop_cong [fundef_cong]:
  "\<lbrakk>xs = ys; \<And>x. x \<in> set ys \<Longrightarrow> ev x = ev' x\<rbrakk>
   \<Longrightarrow> gep_loop ev B T CurTy xs base = gep_loop ev' B T CurTy ys base"
proof (induction ys arbitrary: xs CurTy base)
  case Nil
  then show ?case by simp
next
  case (Cons y ys)
  have a: "gep_addend ev B T CurTy y = gep_addend ev' B T CurTy y"
    by (rule gep_addend_cong) (simp add: Cons.prems)
  have "gep_loop ev B T C ys b = gep_loop ev' B T C ys b" for C b
    by (rule Cons.IH) (simp_all add: Cons.prems)
  with a show ?case
    by (simp add: Cons.prems(1) split: sum.splits)
qed

subsection \<open>\<^verbatim>\<open>Executor::evalConstantExpr\<close>\<close>

lemma size_operand_le:
  "x \<in> set xs \<Longrightarrow> size (x :: 'f llvm_Constant) \<le> size_list size xs"
  by (induction xs) auto

text \<open>
  The shapes the cases of the switch share: \<^verbatim>\<open>cast<ConstantExpr>(op1)->M(cast<ConstantExpr>(op2))\<close>,
  \<^verbatim>\<open>cast<FConstantExpr>(op1)->M(cast<FConstantExpr>(op2), rm)\<close> and
  \<^verbatim>\<open>cast<FConstantExpr>(op1)->M(cast<FConstantExpr>(op2))\<close>.
\<close>

definition int_binary ::
  "(klee_ConstantExpr \<Rightarrow> klee_ConstantExpr \<Rightarrow> Failure + klee_ConstantExpr) \<Rightarrow>
   'f Expr option \<Rightarrow> 'f Expr option \<Rightarrow> Failure + 'f Expr" where
  "int_binary M op1 op2 =
     bindE (cast_ConstantExpr op1) (\<lambda>a.
     bindE (cast_ConstantExpr op2) (\<lambda>b. mapE Constant (M a b)))"

definition float_binary ::
  "('f \<Rightarrow> 'f \<Rightarrow> roundingMode \<Rightarrow> Failure + 'f) \<Rightarrow>
   'f Expr option \<Rightarrow> 'f Expr option \<Rightarrow> roundingMode \<Rightarrow> Failure + 'f Expr" where
  "float_binary M op1 op2 rm =
     bindE (cast_FConstantExpr op1) (\<lambda>a.
     bindE (cast_FConstantExpr op2) (\<lambda>b. mapE FConstant (M a b rm)))"

definition float_compare ::
  "('f \<Rightarrow> 'f \<Rightarrow> Failure + klee_ConstantExpr) \<Rightarrow>
   'f Expr option \<Rightarrow> 'f Expr option \<Rightarrow> Failure + 'f Expr" where
  "float_compare M op1 op2 =
     bindE (cast_FConstantExpr op1) (\<lambda>a.
     bindE (cast_FConstantExpr op2) (\<lambda>b. mapE Constant (M a b)))"

text \<open>
  Modelled from the spec: the leaves of \<^verbatim>\<open>Executor::evalConstant\<close> (\<^verbatim>\<open>Executor.cpp\<close> is not
  among the sources). A literal folds to the constant of its width and value, a float
  literal to the float constant, and a constant expression goes to
  \<^verbatim>\<open>evalConstantExpr\<close>, "a single recursive, post-order traversal".

  \<^verbatim>\<open>evalConstantExpr\<close> is lines 48 to 180 of the source. Operands 0, 1 and 2 are folded
  first, each when the node has it (lines 54 to 56), and a fold that stops the process
  stops this one. Then the switch: one branch per \<^verbatim>\<open>case\<close> label in the order of the
  source, the \<^verbatim>\<open>default\<close> label last. \<^verbatim>\<open>FPTrunc\<close> falls through to \<^verbatim>\<open>FPExt\<close>. In the two
  inner switches the \<^verbatim>\<open>default\<close> label holds only \<^verbatim>\<open>assert(0 && "...")\<close> and stands before
  the first \<^verbatim>\<open>case\<close>: with \<^verbatim>\<open>NDEBUG\<close> the assert is empty and control falls into
  \<^verbatim>\<open>ICMP_EQ\<close>, respectively \<^verbatim>\<open>FCMP_OEQ\<close>. \<^verbatim>\<open>Select\<close> reads \<^verbatim>\<open>op1\<close> through its handle and
  returns the handle \<^verbatim>\<open>op2\<close> or \<^verbatim>\<open>op3\<close>; a null one is the failure \<open>NullExpr\<close>.
\<close>

function (sequential)
  evalConstant ::
    "ExprBuilder \<Rightarrow> 'f FloatBuilder \<Rightarrow> Target \<Rightarrow> 'f llvm_Constant \<Rightarrow> Failure + 'f Expr"
  and evalConstantExpr ::
    "ExprBuilder \<Rightarrow> 'f FloatBuilder \<Rightarrow> Target \<Rightarrow> Type \<Rightarrow> Instruction \<Rightarrow> Predicate \<Rightarrow>
     'f llvm_Constant list \<Rightarrow> Failure + 'f Expr"
where
  "evalConstant B FB T (ConstantInt w v) = Inr (Constant (alloc v w))"
| "evalConstant B FB T (ConstantFP ty f) = Inr (FConstant f)"
| "evalConstant B FB T (ConstantExpr ty opc p ops) = evalConstantExpr B FB T ty opc p ops"
| "evalConstantExpr B FB T ty opc p ops =
    (case (if 0 < length ops then mapE Some (evalConstant B FB T (ops ! 0)) else Inr None) of
       Inl e \<Rightarrow> Inl e
     | Inr op1 \<Rightarrow>
    (case (if 1 < length ops then mapE Some (evalConstant B FB T (ops ! 1)) else Inr None) of
       Inl e \<Rightarrow> Inl e
     | Inr op2 \<Rightarrow>
    (case (if 2 < length ops then mapE Some (evalConstant B FB T (ops ! 2)) else Inr None) of
       Inl e \<Rightarrow> Inl e
     | Inr op3 \<Rightarrow>
    (case opc of
       Instruction.Trunc \<Rightarrow>
         bindE (cast_ConstantExpr op1) (\<lambda>c.
           mapE Constant (Extract B c 0 (getWidthForLLVMType T ty)))
     | Instruction.ZExt \<Rightarrow>
         bindE (cast_ConstantExpr op1) (\<lambda>c.
           mapE Constant (ZExt B c (getWidthForLLVMType T ty)))
     | Instruction.SExt \<Rightarrow>
         bindE (cast_ConstantExpr op1) (\<lambda>c.
           mapE Constant (SExt B c (getWidthForLLVMType T ty)))
     | Instruction.Add \<Rightarrow> int_binary (Add B) op1 op2
     | Instruction.Sub \<Rightarrow> int_binary (Sub B) op1 op2
     | Instruction.Mul \<Rightarrow> int_binary (Mul B) op1 op2
     | Instruction.SDiv \<Rightarrow> int_binary (SDiv B) op1 op2
     | Instruction.UDiv \<Rightarrow> int_binary (UDiv B) op1 op2
     | Instruction.SRem \<Rightarrow> int_binary (SRem B) op1 op2
     | Instruction.URem \<Rightarrow> int_binary (URem B) op1 op2
     | Instruction.And \<Rightarrow> int_binary (And B) op1 op2
     | Instruction.Or \<Rightarrow> int_binary (Or B) op1 op2
     | Instruction.Xor \<Rightarrow> int_binary (Xor B) op1 op2
     | Instruction.Shl \<Rightarrow> int_binary (Shl B) op1 op2
     | Instruction.LShr \<Rightarrow> int_binary (LShr B) op1 op2
     | Instruction.AShr \<Rightarrow> int_binary (AShr B) op1 op2
     | Instruction.BitCast \<Rightarrow> mapE Constant (cast_ConstantExpr op1)
     | Instruction.IntToPtr \<Rightarrow>
         bindE (cast_ConstantExpr op1) (\<lambda>c.
           mapE Constant (ZExt B c (getWidthForLLVMType T ty)))
     | Instruction.PtrToInt \<Rightarrow>
         bindE (cast_ConstantExpr op1) (\<lambda>c.
           mapE Constant (ZExt B c (getWidthForLLVMType T ty)))
     | Instruction.GetElementPtr \<Rightarrow>
         bindE (cast_ConstantExpr op1) (\<lambda>c.
         bindE (ZExt B c (getPointerWidth T)) (\<lambda>base.
           mapE Constant
             (gep_loop (evalConstant B FB T) B T (Some (getType (ops ! 0))) (drop 1 ops) base)))
     | Instruction.ICmp \<Rightarrow>
         (case p of
              ICMP_EQ \<Rightarrow> int_binary (Eq B) op1 op2
            | ICMP_NE \<Rightarrow> int_binary (Ne B) op1 op2
            | ICMP_UGT \<Rightarrow> int_binary (Ugt B) op1 op2
            | ICMP_UGE \<Rightarrow> int_binary (Uge B) op1 op2
            | ICMP_ULT \<Rightarrow> int_binary (Ult B) op1 op2
            | ICMP_ULE \<Rightarrow> int_binary (Ule B) op1 op2
            | ICMP_SGT \<Rightarrow> int_binary (Sgt B) op1 op2
            | ICMP_SGE \<Rightarrow> int_binary (Sge B) op1 op2
            | ICMP_SLT \<Rightarrow> int_binary (Slt B) op1 op2
            | ICMP_SLE \<Rightarrow> int_binary (Sle B) op1 op2
            | _ \<Rightarrow>
                if NDEBUG T then int_binary (Eq B) op1 op2
                else Inl (AssertionFailed ''unhandled ICmp predicate''))
     | Instruction.Select \<Rightarrow>
         (case op1 of
            None \<Rightarrow> Inl NullExpr
          | Some c \<Rightarrow>
              (case (if isTrue c then op2 else op3) of
                 None \<Rightarrow> Inl NullExpr
               | Some r \<Rightarrow> Inr r))
     | Instruction.FAdd \<Rightarrow> float_binary (FAdd FB) op1 op2 rmNearestTiesToEven
     | Instruction.FSub \<Rightarrow> float_binary (FSub FB) op1 op2 rmNearestTiesToEven
     | Instruction.FMul \<Rightarrow> float_binary (FMul FB) op1 op2 rmNearestTiesToEven
     | Instruction.FDiv \<Rightarrow> float_binary (FDiv FB) op1 op2 rmNearestTiesToEven
     | Instruction.FRem \<Rightarrow> float_binary (FRem FB) op1 op2 rmNearestTiesToEven
     | Instruction.FPTrunc \<Rightarrow>
         bindE (cast_FConstantExpr op1) (\<lambda>f.
           mapE FConstant (FExt FB f (getWidthForLLVMType T ty) rmNearestTiesToEven))
     | Instruction.FPExt \<Rightarrow>
         bindE (cast_FConstantExpr op1) (\<lambda>f.
           mapE FConstant (FExt FB f (getWidthForLLVMType T ty) rmNearestTiesToEven))
     | Instruction.UIToFP \<Rightarrow>
         bindE (cast_ConstantExpr op1) (\<lambda>c.
           mapE FConstant (UToF FB c (getWidthForLLVMType T ty) rmNearestTiesToEven))
     | Instruction.SIToFP \<Rightarrow>
         bindE (cast_ConstantExpr op1) (\<lambda>c.
           mapE FConstant (SToF FB c (getWidthForLLVMType T ty) rmNearestTiesToEven))
     | Instruction.FPToUI \<Rightarrow>
         bindE (cast_FConstantExpr op1) (\<lambda>f.
           mapE Constant (FToU FB f (getWidthForLLVMType T ty) rmNearestTiesToEven))
     | Instruction.FPToSI \<Rightarrow>
         bindE (cast_FConstantExpr op1) (\<lambda>f.
           mapE Constant (FToS FB f (getWidthForLLVMType T ty) rmNearestTiesToEven))
     | Instruction.FCmp \<Rightarrow>
         (case p of
              FCMP_OEQ \<Rightarrow> float_compare (FOeq FB) op1 op2
            | FCMP_OGT \<Rightarrow> float_compare (FOgt FB) op1 op2
            | FCMP_OGE \<Rightarrow> float_compare (FOge FB) op1 op2
            | FCMP_OLT \<Rightarrow> float_compare (FOlt FB) op1 op2
            | FCMP_OLE \<Rightarrow> float_compare (FOle FB) op1 op2
            | FCMP_ONE \<Rightarrow> float_compare (FOne FB) op1 op2
            | FCMP_ORD \<Rightarrow> float_compare (FOrd FB) op1 op2
            | FCMP_UNO \<Rightarrow> float_compare (FUno FB) op1 op2
            | FCMP_UEQ \<Rightarrow> float_compare (FUeq FB) op1 op2
            | FCMP_UGT \<Rightarrow> float_compare (FUgt FB) op1 op2
            | FCMP_UGE \<Rightarrow> float_compare (FUge FB) op1 op2
            | FCMP_ULT \<Rightarrow> float_compare (FUlt FB) op1 op2
            | FCMP_ULE \<Rightarrow> float_compare (FUle FB) op1 op2
            | FCMP_UNE \<Rightarrow> float_compare (FUne FB) op1 op2
            | _ \<Rightarrow>
                if NDEBUG T then float_compare (FOeq FB) op1 op2
                else Inl (AssertionFailed ''unhandled FCmp predicate''))
     | _ \<Rightarrow> Inl (UnknownConstantExprType opc)))))"
  by pat_completeness auto

termination
proof (relation "measure (\<lambda>x. case x of
           Inl (B, FB, T, c) \<Rightarrow> 2 * size c
         | Inr (B, FB, T, ty, opc, p, ops) \<Rightarrow> 2 * size_list size ops + 1)", goal_cases)
  case 1
  show ?case by simp
next
  case (2 B FB T ty opc p ops)
  show ?case by simp
next
  case (3 B FB T ty opc p ops)
  then show ?case using size_operand_le [of "ops ! 0" ops] by simp
next
  case (4 B FB T ty opc p ops x)
  then show ?case using size_operand_le [of "ops ! 1" ops] by simp
next
  case (5 B FB T ty opc p ops x y)
  then show ?case using size_operand_le [of "ops ! 2" ops] by simp
next
  case (6 B FB T ty opc p ops x y z c base operand)
  then have "operand \<in> set ops" by (auto dest: in_set_dropD)
  then show ?case using size_operand_le [of operand ops] by simp
qed

declare evalConstantExpr.simps [simp del]

text \<open>The \<^verbatim>\<open>case\<close> labels of the outer switch, lines 65 to 154.\<close>

definition supported_opcodes :: "Instruction list" where
  "supported_opcodes =
     [Instruction.Trunc, Instruction.ZExt, Instruction.SExt,
      Instruction.Add, Instruction.Sub, Instruction.Mul, Instruction.SDiv, Instruction.UDiv,
      Instruction.SRem, Instruction.URem, Instruction.And, Instruction.Or, Instruction.Xor,
      Instruction.Shl, Instruction.LShr, Instruction.AShr, Instruction.BitCast,
      Instruction.IntToPtr, Instruction.PtrToInt, Instruction.GetElementPtr,
      Instruction.ICmp, Instruction.Select,
      Instruction.FAdd, Instruction.FSub, Instruction.FMul, Instruction.FDiv, Instruction.FRem,
      Instruction.FPTrunc, Instruction.FPExt, Instruction.UIToFP, Instruction.SIToFP,
      Instruction.FPToUI, Instruction.FPToSI, Instruction.FCmp]"

text \<open>The \<^verbatim>\<open>case\<close> labels of the two inner switches, lines 126 to 135 and 157 to 170.\<close>

definition icmp_predicates :: "Predicate list" where
  "icmp_predicates =
     [ICMP_EQ, ICMP_NE, ICMP_UGT, ICMP_UGE, ICMP_ULT, ICMP_ULE,
      ICMP_SGT, ICMP_SGE, ICMP_SLT, ICMP_SLE]"

definition fcmp_predicates :: "Predicate list" where
  "fcmp_predicates =
     [FCMP_OEQ, FCMP_OGT, FCMP_OGE, FCMP_OLT, FCMP_OLE, FCMP_ONE, FCMP_ORD, FCMP_UNO,
      FCMP_UEQ, FCMP_UGT, FCMP_UGE, FCMP_ULT, FCMP_ULE, FCMP_UNE]"

subsection \<open>The integer builder the spec describes\<close>

text \<open>
  Modelled from the spec: the methods of \<^verbatim>\<open>klee::ConstantExpr\<close> (\<^verbatim>\<open>lib/Expr/Expr.cpp\<close> is not
  among the sources) that the spec gives a meaning to. \<open>Extract\<close> "extracts the low N
  bits" from an offset on, \<open>ZExt\<close> and \<open>SExt\<close> "extend to the declared width, zero- or
  sign-filling respectively", \<open>Add\<close>, \<open>Sub\<close> and \<open>Mul\<close> are the "fixed-width,
  two's-complement, wraparound" operations at the width of the operands, and each
  comparison produces "a single-bit boolean constant". The spec leaves division,
  remainder and the shifts to the builder (their behaviour at a zero divisor and at a
  shift by the width or more is an open question there), and says nothing on the bitwise
  operations beyond their names: those methods stay the ones of the builder \<open>B\<close> given.
\<close>

definition signed_value :: "klee_ConstantExpr \<Rightarrow> int" where
  "signed_value c =
     (if 0 < width c \<and> 2 ^ (width c - 1) \<le> value c
      then int (value c) - 2 ^ width c else int (value c))"

definition bool_constant :: "bool \<Rightarrow> Failure + klee_ConstantExpr" where
  "bool_constant b = Inr (alloc (if b then 1 else 0) 1)"

definition spec_ExprBuilder :: "ExprBuilder \<Rightarrow> ExprBuilder" where
  "spec_ExprBuilder B = B
     \<lparr> Extract := (\<lambda>c off w. Inr (alloc (value c div 2 ^ off) w)),
       ZExt := (\<lambda>c w. Inr (alloc (value c) w)),
       SExt := (\<lambda>c w. Inr (alloc (nat (signed_value c mod 2 ^ w)) w)),
       Add := (\<lambda>a b. Inr (alloc (value a + value b) (width a))),
       Sub := (\<lambda>a b. Inr (alloc (nat ((int (value a) - int (value b)) mod 2 ^ width a))
                            (width a))),
       Mul := (\<lambda>a b. Inr (alloc (value a * value b) (width a))),
       Eq := (\<lambda>a b. bool_constant (value a = value b)),
       Ne := (\<lambda>a b. bool_constant (value a \<noteq> value b)),
       Ugt := (\<lambda>a b. bool_constant (value a > value b)),
       Uge := (\<lambda>a b. bool_constant (value a \<ge> value b)),
       Ult := (\<lambda>a b. bool_constant (value a < value b)),
       Ule := (\<lambda>a b. bool_constant (value a \<le> value b)),
       Sgt := (\<lambda>a b. bool_constant (signed_value a > signed_value b)),
       Sge := (\<lambda>a b. bool_constant (signed_value a \<ge> signed_value b)),
       Slt := (\<lambda>a b. bool_constant (signed_value a < signed_value b)),
       Sle := (\<lambda>a b. bool_constant (signed_value a \<le> signed_value b)) \<rparr>"

text \<open>
  A float builder that is handed one rounding mode whatever the caller passes: the
  builder \<open>FB\<close> as it behaves under \<open>rm\<close> alone.
\<close>

definition with_rounding :: "roundingMode \<Rightarrow> 'f FloatBuilder \<Rightarrow> 'f FloatBuilder" where
  "with_rounding rm FB = FB
     \<lparr> FAdd := (\<lambda>a b m. FAdd FB a b rm),
       FSub := (\<lambda>a b m. FSub FB a b rm),
       FMul := (\<lambda>a b m. FMul FB a b rm),
       FDiv := (\<lambda>a b m. FDiv FB a b rm),
       FRem := (\<lambda>a b m. FRem FB a b rm),
       FExt := (\<lambda>a w m. FExt FB a w rm),
       UToF := (\<lambda>c w m. UToF FB c w rm),
       SToF := (\<lambda>c w m. SToF FB c w rm),
       FToU := (\<lambda>a w m. FToU FB a w rm),
       FToS := (\<lambda>a w m. FToS FB a w rm) \<rparr>"

subsection \<open>The accumulation of offsets in the spec's words\<close>

text \<open>
  The addend and the accumulation as the spec words them, to compare the loop with: "if
  the indexed aggregate is a struct, the addend is the byte offset of the indicated
  field, queried from Target Layout; otherwise the addend is
  \<open>zero_extend(index_value) * byte_size_of(element_type)\<close>", and "each step contributes
  exactly one addend to a running base value".
\<close>

definition gep_addend_spec ::
  "('f llvm_Constant \<Rightarrow> Failure + 'f Expr) \<Rightarrow> ExprBuilder \<Rightarrow> Target \<Rightarrow> Type option \<Rightarrow>
   'f llvm_Constant \<Rightarrow> Failure + klee_ConstantExpr" where
  "gep_addend_spec ev B T CurTy operand =
     (case CurTy of
        None \<Rightarrow> Inl IncompatibleCast
      | Some (StructTy members) \<Rightarrow>
          (case operand of
             ConstantInt w v \<Rightarrow>
               if unsigned v < length members
               then Inr (alloc (uint64_t (getElementOffset T (StructTy members) (unsigned v)))
                          (getPointerWidth T))
               else Inl LayoutError
           | _ \<Rightarrow> Inl IncompatibleCast)
      | Some ty \<Rightarrow>
          (case elementType ty of
             None \<Rightarrow> Inl IncompatibleCast
           | Some elt \<Rightarrow>
               bindE (ev operand) (\<lambda>v.
               bindE (cast_ConstantExpr (Some v)) (\<lambda>index.
               bindE (ZExt B index (getPointerWidth T)) (\<lambda>index.
               Mul B index (alloc (uint64_t (getTypeAllocSize T elt)) (getPointerWidth T)))))))"

fun gep_fold_spec ::
  "('f llvm_Constant \<Rightarrow> Failure + 'f Expr) \<Rightarrow> ExprBuilder \<Rightarrow> Target \<Rightarrow> Type option \<Rightarrow>
   'f llvm_Constant list \<Rightarrow> klee_ConstantExpr \<Rightarrow> Failure + klee_ConstantExpr" where
  "gep_fold_spec ev B T CurTy [] base = Inr base"
| "gep_fold_spec ev B T CurTy (operand # rest) base =
     bindE (gep_addend_spec ev B T CurTy operand) (\<lambda>addend.
     bindE (Add B base addend) (\<lambda>base'.
     gep_fold_spec ev B T (gep_type_next CurTy operand) rest base'))"

subsection \<open>Collaborators for closed evaluations\<close>




section \<open>Properties of the fold\<close>

subsection \<open>Shared facts\<close>

text \<open>
  Where the opcode has no \<^verbatim>\<open>case\<close> label, the fold is the evaluation of the operands
  followed by the \<^verbatim>\<open>default\<close> branch.
\<close>

lemma default_branch:
  assumes "opc \<notin> set supported_opcodes"
  shows "evalConstantExpr B FB T ty opc p ops =
    (case (if 0 < length ops then mapE Some (evalConstant B FB T (ops ! 0)) else Inr None) of
       Inl e \<Rightarrow> Inl e
     | Inr op1 \<Rightarrow>
    (case (if 1 < length ops then mapE Some (evalConstant B FB T (ops ! 1)) else Inr None) of
       Inl e \<Rightarrow> Inl e
     | Inr op2 \<Rightarrow>
    (case (if 2 < length ops then mapE Some (evalConstant B FB T (ops ! 2)) else Inr None) of
       Inl e \<Rightarrow> Inl e
     | Inr op3 \<Rightarrow> Inl (UnknownConstantExprType opc))))"
  using assms
  by (cases opc)
     (simp_all add: supported_opcodes_def evalConstantExpr.simps cong: sum.case_cong)

text \<open>
  The fold of a node does not change when the float builder is replaced by its own
  behaviour under round-to-nearest-even, provided the folds of the operands do not.
\<close>

lemma switch_with_rounding:
  assumes IH: "\<And>x. x \<in> set ops \<Longrightarrow>
      evalConstant B (with_rounding rmNearestTiesToEven FB) T x = evalConstant B FB T x"
  shows "evalConstantExpr B (with_rounding rmNearestTiesToEven FB) T ty opc p ops =
         evalConstantExpr B FB T ty opc p ops"
proof -
  have e: "i < length ops \<Longrightarrow>
      evalConstant B (with_rounding rmNearestTiesToEven FB) T (ops ! i) =
      evalConstant B FB T (ops ! i)" for i
    by (rule IH) simp
  have g: "gep_loop (evalConstant B (with_rounding rmNearestTiesToEven FB) T) B T C
             (drop (Suc 0) ops) b
         = gep_loop (evalConstant B FB T) B T C (drop (Suc 0) ops) b" for C b
    by (rule gep_loop_cong) (auto dest: in_set_dropD intro: IH)
  have f: "FOeq (with_rounding rm FB) = FOeq FB" "FOgt (with_rounding rm FB) = FOgt FB"
    "FOge (with_rounding rm FB) = FOge FB" "FOlt (with_rounding rm FB) = FOlt FB"
    "FOle (with_rounding rm FB) = FOle FB" "FOne (with_rounding rm FB) = FOne FB"
    "FOrd (with_rounding rm FB) = FOrd FB" "FUno (with_rounding rm FB) = FUno FB"
    "FUeq (with_rounding rm FB) = FUeq FB" "FUgt (with_rounding rm FB) = FUgt FB"
    "FUge (with_rounding rm FB) = FUge FB" "FUlt (with_rounding rm FB) = FUlt FB"
    "FUle (with_rounding rm FB) = FUle FB" "FUne (with_rounding rm FB) = FUne FB" for rm
    by (simp_all add: with_rounding_def)
  have r:
    "float_binary (FAdd (with_rounding rmNearestTiesToEven FB)) a b rmNearestTiesToEven
       = float_binary (FAdd FB) a b rmNearestTiesToEven"
    "float_binary (FSub (with_rounding rmNearestTiesToEven FB)) a b rmNearestTiesToEven
       = float_binary (FSub FB) a b rmNearestTiesToEven"
    "float_binary (FMul (with_rounding rmNearestTiesToEven FB)) a b rmNearestTiesToEven
       = float_binary (FMul FB) a b rmNearestTiesToEven"
    "float_binary (FDiv (with_rounding rmNearestTiesToEven FB)) a b rmNearestTiesToEven
       = float_binary (FDiv FB) a b rmNearestTiesToEven"
    "float_binary (FRem (with_rounding rmNearestTiesToEven FB)) a b rmNearestTiesToEven
       = float_binary (FRem FB) a b rmNearestTiesToEven"
    "FExt (with_rounding rmNearestTiesToEven FB) x w rmNearestTiesToEven
       = FExt FB x w rmNearestTiesToEven"
    "UToF (with_rounding rmNearestTiesToEven FB) c w rmNearestTiesToEven
       = UToF FB c w rmNearestTiesToEven"
    "SToF (with_rounding rmNearestTiesToEven FB) c w rmNearestTiesToEven
       = SToF FB c w rmNearestTiesToEven"
    "FToU (with_rounding rmNearestTiesToEven FB) x w rmNearestTiesToEven
       = FToU FB x w rmNearestTiesToEven"
    "FToS (with_rounding rmNearestTiesToEven FB) x w rmNearestTiesToEven
       = FToS FB x w rmNearestTiesToEven"
    for a b :: "'a Expr option" and x w c
    by (simp_all add: with_rounding_def float_binary_def)
  show ?thesis
    unfolding evalConstantExpr.simps [of B _ T ty opc p ops]
    by (simp add: e g f r
          cong: if_cong sum.case_cong Instruction.case_cong Predicate.case_cong)
qed

lemma evalConstant_with_rounding:
  "evalConstant B (with_rounding rmNearestTiesToEven FB) T c = evalConstant B FB T c"
proof (induction c)
  case (ConstantInt w v)
  show ?case by simp
next
  case (ConstantFP ty f)
  show ?case by simp
next
  case (ConstantExpr ty opc p ops)
  then show ?case by (simp add: switch_with_rounding)
qed

text \<open>Arithmetic of widening and narrowing a bit vector.\<close>

lemma sign_fill:
  assumes "x < 2 ^ w"
  shows "nat ((int x - 2 ^ w) mod 2 ^ (w + k)) = x + (2 ^ (w + k) - 2 ^ w)"
proof -
  have le: "(2::int) ^ w \<le> 2 ^ (w + k)"
    by (simp add: power_increasing)
  have lt: "int x < 2 ^ w"
    using assms by (metis of_nat_less_iff of_nat_numeral of_nat_power)
  have "(int x - 2 ^ w) mod 2 ^ (w + k) = (int x - 2 ^ w + 2 ^ (w + k)) mod 2 ^ (w + k)"
    by simp
  also have "\<dots> = int x - 2 ^ w + 2 ^ (w + k)"
  proof (rule mod_pos_pos_trivial)
    show "0 \<le> int x - 2 ^ w + 2 ^ (w + k)"
      using le by linarith
    show "int x - 2 ^ w + 2 ^ (w + k) < 2 ^ (w + k)"
      using lt by linarith
  qed
  finally have "nat ((int x - 2 ^ w) mod 2 ^ (w + k)) = nat (int x + (2 ^ (w + k) - 2 ^ w))"
    by (simp add: algebra_simps)
  also have "\<dots> = x + nat (2 ^ (w + k) - 2 ^ w)"
    using le by (simp add: nat_add_distrib)
  also have "nat ((2::int) ^ (w + k) - 2 ^ w) = 2 ^ (w + k) - 2 ^ w"
    by (simp add: nat_diff_distrib nat_power_eq)
  finally show ?thesis .
qed

lemma mod_widen: "x mod 2 ^ w mod 2 ^ (w + k) = (x :: nat) mod 2 ^ w"
proof -
  have "x mod 2 ^ w < 2 ^ w" by simp
  also have "(2::nat) ^ w \<le> 2 ^ (w + k)" by (simp add: power_increasing)
  finally show ?thesis by simp
qed

lemma mod_narrow: "x mod 2 ^ (n + k) mod 2 ^ n = (x :: nat) mod 2 ^ n"
  by (simp add: mod_mod_cancel le_imp_power_dvd)

subsection \<open>Pointer arithmetic\<close>

text \<open>
  Where the layout reports no allocation size of \<open>2 ^ 32\<close> bytes or more, the loop of the
  source is the accumulation the spec describes.
\<close>

lemma gep_addend_is_spec:
  assumes "\<And>ty. getTypeAllocSize T ty < 2 ^ 32"
  shows "gep_addend ev B T CurTy operand = gep_addend_spec ev B T CurTy operand"
proof -
  have "unsigned (getTypeAllocSize T ty) = uint64_t (getTypeAllocSize T ty)" for ty
  proof -
    have "getTypeAllocSize T ty < 2 ^ 64"
      using assms [of ty] by simp
    with assms [of ty] show ?thesis
      by (simp add: unsigned_def uint64_t_def)
  qed
  then show ?thesis
    by (simp add: gep_addend_def gep_addend_spec_def
          cong: option.case_cong Type.case_cong)
qed

lemma gep_loop_is_spec:
  assumes "\<And>ty. getTypeAllocSize T ty < 2 ^ 32"
  shows "gep_loop ev B T CurTy operands base = gep_fold_spec ev B T CurTy operands base"
proof (induction operands arbitrary: CurTy base)
  case Nil
  show ?case by simp
next
  case (Cons operand rest)
  show ?case
    by (simp add: gep_addend_is_spec [OF assms] Cons.IH bindE_def cong: sum.case_cong)
qed

text \<open>
  One index into an array or through a pointer, with the builder the spec describes:
  the result is the base plus the index times the allocation size of the element type
  as \<^verbatim>\<open>unsigned elementSize\<close> holds it, at the pointer width.
\<close>

lemma gep_array_index:
  "evalConstantExpr (spec_ExprBuilder B) FB T ty Instruction.GetElementPtr p
     [ConstantExpr (PointerTy elt) Instruction.IntToPtr q [ConstantInt w a], ConstantInt w' i]
   = Inr (Constant (alloc
       (a mod 2 ^ w mod 2 ^ getTypeSizeInBits T (PointerTy elt)
        + i mod 2 ^ w' * unsigned (getTypeAllocSize T elt))
       (getPointerWidth T)))"
  by (simp add: evalConstantExpr.simps mapE_def bindE_def spec_ExprBuilder_def alloc_def
        getWidthForLLVMType_def gep_addend_def mod_simps)

text \<open>
  A field of a struct behind a pointer (first index 0, second index the field): the
  result is the base plus the offset the layout reports for the field.
\<close>

lemma gep_struct_field:
  assumes "unsigned k < length members"
  shows "evalConstantExpr (spec_ExprBuilder B) FB T ty Instruction.GetElementPtr p
     [ConstantExpr (PointerTy (StructTy members)) Instruction.IntToPtr q [ConstantInt w a],
      ConstantInt w0 0, ConstantInt w1 k]
   = Inr (Constant (alloc
       (a mod 2 ^ w mod 2 ^ getTypeSizeInBits T (PointerTy (StructTy members))
        + uint64_t (getElementOffset T (StructTy members) (unsigned k)))
       (getPointerWidth T)))"
  using assms
  by (simp add: evalConstantExpr.simps mapE_def bindE_def spec_ExprBuilder_def alloc_def
        getWidthForLLVMType_def gep_addend_def mod_simps)

text \<open>
  With any builder, on a 64-bit target whose layout gives the element type the size
  \<open>2 ^ 32\<close>, the addend of an array or pointer step is the zero-extended index times the
  constant 0.
\<close>

lemma gep_addend_at_size_2_32:
  "gep_addend ev B (T\<lparr>getPointerWidth := 64, getTypeAllocSize := (\<lambda>ty. 2 ^ 32)\<rparr>)
     (Some (PointerTy elt)) operand
   = bindE (ev operand) (\<lambda>v.
     bindE (cast_ConstantExpr (Some v)) (\<lambda>index.
     bindE (ZExt B index 64) (\<lambda>index.
     Mul B index \<lparr>width = 64, value = 0\<rparr>)))"
  by (simp add: gep_addend_def unsigned_def alloc_def)

text \<open>
  C1 (the fold of \<^verbatim>\<open>GetElementPtr\<close>: each array or pointer step adds the zero-extended
  index times the allocation size of the element type). The source stores the
  allocation size, a \<^verbatim>\<open>uint64_t\<close>, in \<^verbatim>\<open>unsigned elementSize\<close>. On a 64-bit target whose
  layout gives the element type the size \<open>2 ^ 32\<close>, index 1 from the base 4096 folds to
  4096: the addend is 0, where the claim's addend is \<open>1 * 2 ^ 32\<close>.
\<close>

theorem gep_element_size_is_truncated:
  "evalConstantExpr (spec_ExprBuilder B) FB
     (T\<lparr>getPointerWidth := 64, getTypeSizeInBits := (\<lambda>ty. 64),
        getTypeAllocSize := (\<lambda>ty. 2 ^ 32)\<rparr>)
     (PointerTy (ArrayTy (IntegerTy 8) (2 ^ 32))) Instruction.GetElementPtr p
     [ConstantExpr (PointerTy (ArrayTy (IntegerTy 8) (2 ^ 32))) Instruction.IntToPtr q
        [ConstantInt 64 4096],
      ConstantInt 64 1]
   = Inr (Constant \<lparr>width = 64, value = 4096\<rparr>)"
  by (simp add: evalConstantExpr.simps mapE_def bindE_def spec_ExprBuilder_def alloc_def
        getWidthForLLVMType_def gep_addend_def unsigned_def)

subsection \<open>Failures\<close>

text \<open>
  C2 (an opcode outside the supported set). For every node whose opcode is none of the
  \<^verbatim>\<open>case\<close> labels, the fold returns no value, whether it is called directly or reached
  through \<^verbatim>\<open>evalConstant\<close>; and when the operands it folds first (at most three) fold to
  values, the process stops in the \<^verbatim>\<open>default\<close> branch, after the diagnostic that
  carries the opcode of the node.
\<close>

theorem unsupported_opcode_aborts:
  assumes "opc \<notin> set supported_opcodes"
  shows "(\<exists>e. evalConstantExpr B FB T ty opc p ops = Inl e) \<and>
         (\<exists>e. evalConstant B FB T (ConstantExpr ty opc p ops) = Inl e) \<and>
         ((\<forall>i < min 3 (length ops). \<exists>v. evalConstant B FB T (ops ! i) = Inr v) \<longrightarrow>
          evalConstantExpr B FB T ty opc p ops = Inl (UnknownConstantExprType opc))"
proof (intro conjI impI)
  show a: "\<exists>e. evalConstantExpr B FB T ty opc p ops = Inl e"
    by (simp add: default_branch [OF assms] split: sum.splits)
  then show "\<exists>e. evalConstant B FB T (ConstantExpr ty opc p ops) = Inl e"
    by simp
next
  assume ok: "\<forall>i < min 3 (length ops). \<exists>v. evalConstant B FB T (ops ! i) = Inr v"
  have opnd: "\<exists>v. (if i < length ops then mapE Some (evalConstant B FB T (ops ! i))
                    else Inr None) = Inr v"
    if "i < 3" for i
  proof (cases "i < length ops")
    case True
    with that ok obtain v where "evalConstant B FB T (ops ! i) = Inr v" by auto
    with True show ?thesis by (simp add: mapE_def)
  next
    case False
    then show ?thesis by simp
  qed
  from opnd [of 0] opnd [of 1] opnd [of 2]
  show "evalConstantExpr B FB T ty opc p ops = Inl (UnknownConstantExprType opc)"
    by (auto simp add: default_branch [OF assms])
qed

theorem unsupported_opcode_aborts_witness:
  "Instruction.ExtractElement \<notin> set supported_opcodes \<and>
   (\<forall>B (FB :: unit FloatBuilder) T.
      evalConstantExpr B FB T (IntegerTy 32) Instruction.ExtractElement ICMP_EQ
        [ConstantInt 32 7, ConstantInt 32 0]
      = Inl (UnknownConstantExprType Instruction.ExtractElement))"
proof -
  have h: "Instruction.ExtractElement \<notin> set supported_opcodes"
    by (simp add: supported_opcodes_def)
  have "evalConstantExpr B FB T (IntegerTy 32) Instruction.ExtractElement ICMP_EQ
        [ConstantInt 32 7, ConstantInt 32 0]
      = Inl (UnknownConstantExprType Instruction.ExtractElement)"
    for B and FB :: "unit FloatBuilder" and T
    using unsupported_opcode_aborts
      [OF h, of B FB T "IntegerTy 32" ICMP_EQ "[ConstantInt 32 7, ConstantInt 32 0]"]
    by (simp add: less_Suc_eq numeral_3_eq_3)
  with h show ?thesis by simp
qed

text \<open>
  With assertions compiled in, a predicate outside the table of its comparison stops the
  process: no value is returned.
\<close>

lemma icmp_default_asserts:
  assumes "\<not> NDEBUG T" and "p \<notin> set icmp_predicates"
  shows "\<exists>e. evalConstantExpr B FB T ty Instruction.ICmp p ops = Inl e"
  using assms
  by (cases p)
     (auto simp add: icmp_predicates_def evalConstantExpr.simps mapE_def split: sum.splits)

lemma fcmp_default_asserts:
  assumes "\<not> NDEBUG T" and "p \<notin> set fcmp_predicates"
  shows "\<exists>e. evalConstantExpr B FB T ty Instruction.FCmp p ops = Inl e"
  using assms
  by (cases p)
     (auto simp add: fcmp_predicates_def evalConstantExpr.simps mapE_def split: sum.splits)

text \<open>
  With \<^verbatim>\<open>NDEBUG\<close>, the same predicates fold as the first \<^verbatim>\<open>case\<close> of their switch does.
\<close>

lemma icmp_default_falls_through:
  assumes "NDEBUG T" and "p \<notin> set icmp_predicates"
  shows "evalConstantExpr B FB T ty Instruction.ICmp p ops =
         evalConstantExpr B FB T ty Instruction.ICmp ICMP_EQ ops"
  using assms
  by (cases p)
     (simp_all add: icmp_predicates_def evalConstantExpr.simps cong: sum.case_cong)

lemma fcmp_default_falls_through:
  assumes "NDEBUG T" and "p \<notin> set fcmp_predicates"
  shows "evalConstantExpr B FB T ty Instruction.FCmp p ops =
         evalConstantExpr B FB T ty Instruction.FCmp FCMP_OEQ ops"
  using assms
  by (cases p)
     (simp_all add: fcmp_predicates_def evalConstantExpr.simps cong: sum.case_cong)

text \<open>
  C3 (a predicate outside the table stops the process). \<^verbatim>\<open>FCMP_TRUE\<close> is a predicate of
  LLVM's \<^verbatim>\<open>fcmp\<close> that the inner switch has no \<^verbatim>\<open>case\<close> for. In a build with \<^verbatim>\<open>NDEBUG\<close>
  the fold of such a node on two float literals is what \<^verbatim>\<open>FOeq\<close> returns for them: the
  \<^verbatim>\<open>default\<close> label, an \<^verbatim>\<open>assert\<close> alone, falls into \<^verbatim>\<open>case FCmpInst::FCMP_OEQ\<close>.
\<close>

theorem fcmp_true_folds_as_oeq_under_NDEBUG:
  "evalConstantExpr B FB (T\<lparr>NDEBUG := True\<rparr>) (IntegerTy 1) Instruction.FCmp FCMP_TRUE
     [ConstantFP DoubleTy a, ConstantFP DoubleTy b]
   = mapE Constant (FOeq FB a b)"
  by (simp add: evalConstantExpr.simps mapE_def bindE_def float_compare_def)

subsection \<open>Select\<close>

text \<open>
  C4 (\<^verbatim>\<open>Select\<close>). The fold of a select over the operands \<open>c\<close>, \<open>a\<close>, \<open>b\<close> folds all three,
  in this order, and stops where one of the folds stops; when all three return, the result
  is the folded \<open>a\<close> if the folded \<open>c\<close> is the true boolean constant, and the folded \<open>b\<close>
  otherwise. So a select whose condition is true still stops when its third operand
  does: here on an operand with an unsupported opcode.
\<close>

theorem select_folds_all_three_operands:
  "evalConstantExpr B FB T ty Instruction.Select p [c, a, b] =
     bindE (evalConstant B FB T c) (\<lambda>v1.
     bindE (evalConstant B FB T a) (\<lambda>v2.
     bindE (evalConstant B FB T b) (\<lambda>v3.
       Inr (if isTrue v1 then v2 else v3))))
   \<and> evalConstantExpr B FB T ty Instruction.Select p
       [ConstantInt 1 1, ConstantInt 8 5,
        ConstantExpr (IntegerTy 8) Instruction.ExtractElement q []]
     = Inl (UnknownConstantExprType Instruction.ExtractElement)
   \<and> evalConstantExpr B FB T ty Instruction.Select p
       [ConstantInt 1 1, ConstantInt 8 5, ConstantInt 8 6]
     = Inr (Constant \<lparr>width = 8, value = 5\<rparr>)
   \<and> evalConstantExpr B FB T ty Instruction.Select p
       [ConstantInt 1 0, ConstantInt 8 5, ConstantInt 8 6]
     = Inr (Constant \<lparr>width = 8, value = 6\<rparr>)"
proof (intro conjI)
  show "evalConstantExpr B FB T ty Instruction.Select p [c, a, b] =
     bindE (evalConstant B FB T c) (\<lambda>v1.
     bindE (evalConstant B FB T a) (\<lambda>v2.
     bindE (evalConstant B FB T b) (\<lambda>v3.
       Inr (if isTrue v1 then v2 else v3))))"
    by (simp add: evalConstantExpr.simps mapE_def bindE_def split: sum.splits)
  show "evalConstantExpr B FB T ty Instruction.Select p
       [ConstantInt 1 1, ConstantInt 8 5,
        ConstantExpr (IntegerTy 8) Instruction.ExtractElement q []]
     = Inl (UnknownConstantExprType Instruction.ExtractElement)"
    by (simp add: evalConstantExpr.simps mapE_def)
  show "evalConstantExpr B FB T ty Instruction.Select p
       [ConstantInt 1 1, ConstantInt 8 5, ConstantInt 8 6]
     = Inr (Constant \<lparr>width = 8, value = 5\<rparr>)"
    by (simp add: evalConstantExpr.simps mapE_def alloc_def)
  show "evalConstantExpr B FB T ty Instruction.Select p
       [ConstantInt 1 0, ConstantInt 8 5, ConstantInt 8 6]
     = Inr (Constant \<lparr>width = 8, value = 6\<rparr>)"
    by (simp add: evalConstantExpr.simps mapE_def alloc_def)
qed

subsection \<open>Integer operations, with the builder the spec describes\<close>

text \<open>
  C5 (wraparound). At width 8, \<open>250 + 10\<close> folds to 4, \<open>0 - 1\<close> to 255, \<open>3 - 5\<close> to 254,
  \<open>16 * 16\<close> to 0 and \<open>255 * 255\<close> to 1; at every width \<open>w\<close> the fold of \<^verbatim>\<open>Add\<close>,
  \<^verbatim>\<open>Sub\<close> and \<^verbatim>\<open>Mul\<close> of two literals of that width is the sum, difference and product
  modulo \<open>2 ^ w\<close>.
\<close>

theorem integer_arithmetic_wraps:
  "evalConstantExpr (spec_ExprBuilder B) FB T (IntegerTy 8) Instruction.Add p
     [ConstantInt 8 250, ConstantInt 8 10] = Inr (Constant \<lparr>width = 8, value = 4\<rparr>)
   \<and> evalConstantExpr (spec_ExprBuilder B) FB T (IntegerTy 8) Instruction.Sub p
     [ConstantInt 8 0, ConstantInt 8 1] = Inr (Constant \<lparr>width = 8, value = 255\<rparr>)
   \<and> evalConstantExpr (spec_ExprBuilder B) FB T (IntegerTy 8) Instruction.Sub p
     [ConstantInt 8 3, ConstantInt 8 5] = Inr (Constant \<lparr>width = 8, value = 254\<rparr>)
   \<and> evalConstantExpr (spec_ExprBuilder B) FB T (IntegerTy 8) Instruction.Mul p
     [ConstantInt 8 16, ConstantInt 8 16] = Inr (Constant \<lparr>width = 8, value = 0\<rparr>)
   \<and> evalConstantExpr (spec_ExprBuilder B) FB T (IntegerTy 8) Instruction.Mul p
     [ConstantInt 8 255, ConstantInt 8 255] = Inr (Constant \<lparr>width = 8, value = 1\<rparr>)
   \<and> evalConstantExpr (spec_ExprBuilder B) FB T ty Instruction.Add p
     [ConstantInt w x, ConstantInt w y]
     = Inr (Constant \<lparr>width = w, value = (x + y) mod 2 ^ w\<rparr>)
   \<and> evalConstantExpr (spec_ExprBuilder B) FB T ty Instruction.Sub p
     [ConstantInt w x, ConstantInt w y]
     = Inr (Constant \<lparr>width = w, value = nat ((int x - int y) mod 2 ^ w)\<rparr>)
   \<and> evalConstantExpr (spec_ExprBuilder B) FB T ty Instruction.Mul p
     [ConstantInt w x, ConstantInt w y]
     = Inr (Constant \<lparr>width = w, value = (x * y) mod 2 ^ w\<rparr>)"
proof (intro conjI)
  note defs = evalConstantExpr.simps mapE_def bindE_def int_binary_def spec_ExprBuilder_def
    alloc_def
  show "evalConstantExpr (spec_ExprBuilder B) FB T (IntegerTy 8) Instruction.Add p
     [ConstantInt 8 250, ConstantInt 8 10] = Inr (Constant \<lparr>width = 8, value = 4\<rparr>)"
    by (simp add: defs)
  show "evalConstantExpr (spec_ExprBuilder B) FB T (IntegerTy 8) Instruction.Sub p
     [ConstantInt 8 0, ConstantInt 8 1] = Inr (Constant \<lparr>width = 8, value = 255\<rparr>)"
    by (simp add: defs)
  show "evalConstantExpr (spec_ExprBuilder B) FB T (IntegerTy 8) Instruction.Sub p
     [ConstantInt 8 3, ConstantInt 8 5] = Inr (Constant \<lparr>width = 8, value = 254\<rparr>)"
    by (simp add: defs)
  show "evalConstantExpr (spec_ExprBuilder B) FB T (IntegerTy 8) Instruction.Mul p
     [ConstantInt 8 16, ConstantInt 8 16] = Inr (Constant \<lparr>width = 8, value = 0\<rparr>)"
    by (simp add: defs)
  show "evalConstantExpr (spec_ExprBuilder B) FB T (IntegerTy 8) Instruction.Mul p
     [ConstantInt 8 255, ConstantInt 8 255] = Inr (Constant \<lparr>width = 8, value = 1\<rparr>)"
    by (simp add: defs)
  show "evalConstantExpr (spec_ExprBuilder B) FB T ty Instruction.Add p
     [ConstantInt w x, ConstantInt w y]
     = Inr (Constant \<lparr>width = w, value = (x + y) mod 2 ^ w\<rparr>)"
    by (simp add: defs mod_simps)
  have "(int (x mod 2 ^ w) - int (y mod 2 ^ w)) mod 2 ^ w = (int x - int y) mod 2 ^ w"
    by (simp add: zmod_int mod_simps)
  then show "evalConstantExpr (spec_ExprBuilder B) FB T ty Instruction.Sub p
     [ConstantInt w x, ConstantInt w y]
     = Inr (Constant \<lparr>width = w, value = nat ((int x - int y) mod 2 ^ w)\<rparr>)"
    by (simp add: defs nat_mod_distrib)
  show "evalConstantExpr (spec_ExprBuilder B) FB T ty Instruction.Mul p
     [ConstantInt w x, ConstantInt w y]
     = Inr (Constant \<lparr>width = w, value = (x * y) mod 2 ^ w\<rparr>)"
    by (simp add: defs mod_simps)
qed

text \<open>
  C6 (width changes). \<^verbatim>\<open>Trunc\<close> of the 16-bit \<open>0x1234\<close> to width 8 folds to \<open>0x34\<close>,
  \<^verbatim>\<open>ZExt\<close> of the 8-bit \<open>0xFF\<close> to width 16 to \<open>0x00FF\<close>, and \<^verbatim>\<open>SExt\<close> of the same to
  \<open>0xFFFF\<close>. For every literal and every declared type the result has the width of the
  declared type: \<^verbatim>\<open>Trunc\<close> keeps the bits of the operand below that width (from width
  \<open>n + k\<close> to width \<open>n\<close>, the value modulo \<open>2 ^ n\<close>); \<^verbatim>\<open>ZExt\<close> from width \<open>w\<close> to
  width \<open>w + k\<close> keeps the value, so the \<open>k\<close> new bits are 0; \<^verbatim>\<open>SExt\<close> from width \<open>w\<close>
  to width \<open>w + k\<close> keeps the value when the sign bit is clear and sets the \<open>k\<close> new bits
  when it is set.
\<close>

theorem trunc_zext_sext_at_declared_width:
  "evalConstantExpr (spec_ExprBuilder B) FB T (IntegerTy 8) Instruction.Trunc p
     [ConstantInt 16 0x1234] = Inr (Constant \<lparr>width = 8, value = 0x34\<rparr>)
   \<and> evalConstantExpr (spec_ExprBuilder B) FB T (IntegerTy 16) Instruction.ZExt p
     [ConstantInt 8 0xFF] = Inr (Constant \<lparr>width = 16, value = 0x00FF\<rparr>)
   \<and> evalConstantExpr (spec_ExprBuilder B) FB T (IntegerTy 16) Instruction.SExt p
     [ConstantInt 8 0xFF] = Inr (Constant \<lparr>width = 16, value = 0xFFFF\<rparr>)
   \<and> evalConstantExpr (spec_ExprBuilder B) FB T ty Instruction.Trunc p [ConstantInt w v]
     = Inr (Constant \<lparr>width = getWidthForLLVMType T ty,
                        value = v mod 2 ^ w mod 2 ^ getWidthForLLVMType T ty\<rparr>)
   \<and> evalConstantExpr (spec_ExprBuilder B) FB T (IntegerTy n) Instruction.Trunc p
         [ConstantInt (n + k) v]
     = Inr (Constant \<lparr>width = n, value = v mod 2 ^ n\<rparr>)
   \<and> evalConstantExpr (spec_ExprBuilder B) FB T ty Instruction.ZExt p [ConstantInt w v]
     = Inr (Constant \<lparr>width = getWidthForLLVMType T ty,
                        value = v mod 2 ^ w mod 2 ^ getWidthForLLVMType T ty\<rparr>)
   \<and> evalConstantExpr (spec_ExprBuilder B) FB T (IntegerTy (w + k)) Instruction.ZExt p
         [ConstantInt w v]
     = Inr (Constant \<lparr>width = w + k, value = v mod 2 ^ w\<rparr>)
   \<and> evalConstantExpr (spec_ExprBuilder B) FB T ty Instruction.SExt p [ConstantInt w v]
     = Inr (Constant \<lparr>width = getWidthForLLVMType T ty,
                        value = nat (signed_value (alloc v w)
                                     mod 2 ^ getWidthForLLVMType T ty)\<rparr>)
   \<and> evalConstantExpr (spec_ExprBuilder B) FB T (IntegerTy (w + k)) Instruction.SExt p
         [ConstantInt w v]
     = Inr (Constant \<lparr>width = w + k,
                        value = (if 0 < w \<and> 2 ^ (w - 1) \<le> v mod 2 ^ w
                                 then v mod 2 ^ w + (2 ^ (w + k) - 2 ^ w)
                                 else v mod 2 ^ w)\<rparr>)"
proof (intro conjI)
  note defs = evalConstantExpr.simps mapE_def bindE_def spec_ExprBuilder_def alloc_def
    getWidthForLLVMType_def
  show "evalConstantExpr (spec_ExprBuilder B) FB T (IntegerTy 8) Instruction.Trunc p
     [ConstantInt 16 0x1234] = Inr (Constant \<lparr>width = 8, value = 0x34\<rparr>)"
    by (simp add: defs)
  show "evalConstantExpr (spec_ExprBuilder B) FB T (IntegerTy 16) Instruction.ZExt p
     [ConstantInt 8 0xFF] = Inr (Constant \<lparr>width = 16, value = 0x00FF\<rparr>)"
    by (simp add: defs)
  show "evalConstantExpr (spec_ExprBuilder B) FB T (IntegerTy 16) Instruction.SExt p
     [ConstantInt 8 0xFF] = Inr (Constant \<lparr>width = 16, value = 0xFFFF\<rparr>)"
    by (simp add: defs signed_value_def)
  show "evalConstantExpr (spec_ExprBuilder B) FB T ty Instruction.Trunc p [ConstantInt w v]
     = Inr (Constant \<lparr>width = getWidthForLLVMType T ty,
                        value = v mod 2 ^ w mod 2 ^ getWidthForLLVMType T ty\<rparr>)"
    by (simp add: evalConstantExpr.simps mapE_def bindE_def spec_ExprBuilder_def alloc_def)
  show "evalConstantExpr (spec_ExprBuilder B) FB T (IntegerTy n) Instruction.Trunc p
         [ConstantInt (n + k) v]
     = Inr (Constant \<lparr>width = n, value = v mod 2 ^ n\<rparr>)"
    by (simp add: defs mod_narrow)
  show "evalConstantExpr (spec_ExprBuilder B) FB T ty Instruction.ZExt p [ConstantInt w v]
     = Inr (Constant \<lparr>width = getWidthForLLVMType T ty,
                        value = v mod 2 ^ w mod 2 ^ getWidthForLLVMType T ty\<rparr>)"
    by (simp add: evalConstantExpr.simps mapE_def bindE_def spec_ExprBuilder_def alloc_def)
  show "evalConstantExpr (spec_ExprBuilder B) FB T (IntegerTy (w + k)) Instruction.ZExt p
         [ConstantInt w v]
     = Inr (Constant \<lparr>width = w + k, value = v mod 2 ^ w\<rparr>)"
    by (simp add: defs mod_widen)
  show "evalConstantExpr (spec_ExprBuilder B) FB T ty Instruction.SExt p [ConstantInt w v]
     = Inr (Constant \<lparr>width = getWidthForLLVMType T ty,
                        value = nat (signed_value (alloc v w)
                                     mod 2 ^ getWidthForLLVMType T ty)\<rparr>)"
    by (simp add: evalConstantExpr.simps mapE_def bindE_def spec_ExprBuilder_def alloc_def)
  have neg: "nat ((int (v mod 2 ^ w) - 2 ^ w) mod 2 ^ (w + k))
             = v mod 2 ^ w + (2 ^ (w + k) - 2 ^ w)"
    by (rule sign_fill) simp
  have pos: "nat (int (v mod 2 ^ w) mod 2 ^ (w + k)) = v mod 2 ^ w"
    using mod_widen [of v w k] by (simp add: nat_mod_distrib nat_power_eq)
  show "evalConstantExpr (spec_ExprBuilder B) FB T (IntegerTy (w + k)) Instruction.SExt p
         [ConstantInt w v]
     = Inr (Constant \<lparr>width = w + k,
                        value = (if 0 < w \<and> 2 ^ (w - 1) \<le> v mod 2 ^ w
                                 then v mod 2 ^ w + (2 ^ (w + k) - 2 ^ w)
                                 else v mod 2 ^ w)\<rparr>)"
  proof -
    have sv: "nat (signed_value (alloc v w) mod 2 ^ (w + k))
              = (if 0 < w \<and> 2 ^ (w - 1) \<le> v mod 2 ^ w
                 then v mod 2 ^ w + (2 ^ (w + k) - 2 ^ w)
                 else v mod 2 ^ w)"
    proof (cases "0 < w \<and> 2 ^ (w - 1) \<le> v mod 2 ^ w")
      case True
      with neg show ?thesis
        by (simp add: signed_value_def alloc_def)
    next
      case False
      with pos show ?thesis
        by (auto simp add: signed_value_def alloc_def)
    qed
    have "evalConstantExpr (spec_ExprBuilder B) FB T (IntegerTy (w + k)) Instruction.SExt p
         [ConstantInt w v]
     = Inr (Constant \<lparr>width = w + k,
                        value = nat (signed_value (alloc v w) mod 2 ^ (w + k))\<rparr>)"
      by (simp add: evalConstantExpr.simps mapE_def bindE_def spec_ExprBuilder_def
            getWidthForLLVMType_def alloc_def)
    with sv show ?thesis
      by simp
  qed
qed

text \<open>
  C7 (unsigned and signed comparison). At width 32, \<^verbatim>\<open>ICmp\<close> with the predicate
  unsigned-greater-than on \<open>0xFFFFFFFF\<close> and \<open>0\<close> folds to the one-bit constant 1, and with
  the predicate signed-greater-than, which reads the first bit pattern as \<open>-1\<close>, to the
  one-bit constant 0.
\<close>

theorem icmp_ugt_sgt_examples:
  "evalConstantExpr (spec_ExprBuilder B) FB T (IntegerTy 1) Instruction.ICmp ICMP_UGT
     [ConstantInt 32 0xFFFFFFFF, ConstantInt 32 0] = Inr (Constant \<lparr>width = 1, value = 1\<rparr>)
   \<and> evalConstantExpr (spec_ExprBuilder B) FB T (IntegerTy 1) Instruction.ICmp ICMP_SGT
     [ConstantInt 32 0xFFFFFFFF, ConstantInt 32 0] = Inr (Constant \<lparr>width = 1, value = 0\<rparr>)
   \<and> signed_value (alloc 0xFFFFFFFF 32) = - 1
   \<and> isTrue (Constant \<lparr>width = 1, value = 1\<rparr> :: 'f Expr)
   \<and> \<not> isTrue (Constant \<lparr>width = 1, value = 0\<rparr> :: 'f Expr)"
proof (intro conjI)
  note defs = evalConstantExpr.simps mapE_def bindE_def int_binary_def spec_ExprBuilder_def
    alloc_def bool_constant_def
  show "evalConstantExpr (spec_ExprBuilder B) FB T (IntegerTy 1) Instruction.ICmp ICMP_UGT
     [ConstantInt 32 0xFFFFFFFF, ConstantInt 32 0] = Inr (Constant \<lparr>width = 1, value = 1\<rparr>)"
    by (simp add: defs)
  show "evalConstantExpr (spec_ExprBuilder B) FB T (IntegerTy 1) Instruction.ICmp ICMP_SGT
     [ConstantInt 32 0xFFFFFFFF, ConstantInt 32 0] = Inr (Constant \<lparr>width = 1, value = 0\<rparr>)"
    by (simp add: defs signed_value_def)
  show "signed_value (alloc 0xFFFFFFFF 32) = - 1"
    by (simp add: signed_value_def alloc_def)
  show "isTrue (Constant \<lparr>width = 1, value = 1\<rparr> :: 'f Expr)"
    by simp
  show "\<not> isTrue (Constant \<lparr>width = 1, value = 0\<rparr> :: 'f Expr)"
    by simp
qed

subsection \<open>Floating point\<close>

text \<open>
  C8 (the rounding mode). Every call of a float operation by the fold carries
  round-to-nearest-even: the fold of any constant, and of any node, is the same with the
  builder \<open>FB\<close> and with the builder that does under every rounding mode what \<open>FB\<close>
  does under round-to-nearest-even; and on literal operands the fold of each of the
  eleven opcodes is the builder's method at \<open>rmNearestTiesToEven\<close>.
\<close>

theorem float_operations_round_to_nearest_even:
  "evalConstant B (with_rounding rmNearestTiesToEven FB) T c = evalConstant B FB T c
   \<and> evalConstantExpr B (with_rounding rmNearestTiesToEven FB) T ty opc p ops
     = evalConstantExpr B FB T ty opc p ops
   \<and> evalConstantExpr B FB T ty Instruction.FAdd p [ConstantFP t1 x, ConstantFP t2 y]
     = mapE FConstant (FAdd FB x y rmNearestTiesToEven)
   \<and> evalConstantExpr B FB T ty Instruction.FSub p [ConstantFP t1 x, ConstantFP t2 y]
     = mapE FConstant (FSub FB x y rmNearestTiesToEven)
   \<and> evalConstantExpr B FB T ty Instruction.FMul p [ConstantFP t1 x, ConstantFP t2 y]
     = mapE FConstant (FMul FB x y rmNearestTiesToEven)
   \<and> evalConstantExpr B FB T ty Instruction.FDiv p [ConstantFP t1 x, ConstantFP t2 y]
     = mapE FConstant (FDiv FB x y rmNearestTiesToEven)
   \<and> evalConstantExpr B FB T ty Instruction.FRem p [ConstantFP t1 x, ConstantFP t2 y]
     = mapE FConstant (FRem FB x y rmNearestTiesToEven)
   \<and> evalConstantExpr B FB T ty Instruction.FPTrunc p [ConstantFP t1 x]
     = mapE FConstant (FExt FB x (getWidthForLLVMType T ty) rmNearestTiesToEven)
   \<and> evalConstantExpr B FB T ty Instruction.FPExt p [ConstantFP t1 x]
     = mapE FConstant (FExt FB x (getWidthForLLVMType T ty) rmNearestTiesToEven)
   \<and> evalConstantExpr B FB T ty Instruction.UIToFP p [ConstantInt w v]
     = mapE FConstant (UToF FB (alloc v w) (getWidthForLLVMType T ty) rmNearestTiesToEven)
   \<and> evalConstantExpr B FB T ty Instruction.SIToFP p [ConstantInt w v]
     = mapE FConstant (SToF FB (alloc v w) (getWidthForLLVMType T ty) rmNearestTiesToEven)
   \<and> evalConstantExpr B FB T ty Instruction.FPToUI p [ConstantFP t1 x]
     = mapE Constant (FToU FB x (getWidthForLLVMType T ty) rmNearestTiesToEven)
   \<and> evalConstantExpr B FB T ty Instruction.FPToSI p [ConstantFP t1 x]
     = mapE Constant (FToS FB x (getWidthForLLVMType T ty) rmNearestTiesToEven)"
proof (intro conjI)
  note defs = evalConstantExpr.simps mapE_def bindE_def float_binary_def
  show "evalConstant B (with_rounding rmNearestTiesToEven FB) T c = evalConstant B FB T c"
    by (rule evalConstant_with_rounding)
  show "evalConstantExpr B (with_rounding rmNearestTiesToEven FB) T ty opc p ops
     = evalConstantExpr B FB T ty opc p ops"
    by (rule switch_with_rounding) (rule evalConstant_with_rounding)
  show "evalConstantExpr B FB T ty Instruction.FAdd p [ConstantFP t1 x, ConstantFP t2 y]
     = mapE FConstant (FAdd FB x y rmNearestTiesToEven)"
    by (simp add: defs)
  show "evalConstantExpr B FB T ty Instruction.FSub p [ConstantFP t1 x, ConstantFP t2 y]
     = mapE FConstant (FSub FB x y rmNearestTiesToEven)"
    by (simp add: defs)
  show "evalConstantExpr B FB T ty Instruction.FMul p [ConstantFP t1 x, ConstantFP t2 y]
     = mapE FConstant (FMul FB x y rmNearestTiesToEven)"
    by (simp add: defs)
  show "evalConstantExpr B FB T ty Instruction.FDiv p [ConstantFP t1 x, ConstantFP t2 y]
     = mapE FConstant (FDiv FB x y rmNearestTiesToEven)"
    by (simp add: defs)
  show "evalConstantExpr B FB T ty Instruction.FRem p [ConstantFP t1 x, ConstantFP t2 y]
     = mapE FConstant (FRem FB x y rmNearestTiesToEven)"
    by (simp add: defs)
  show "evalConstantExpr B FB T ty Instruction.FPTrunc p [ConstantFP t1 x]
     = mapE FConstant (FExt FB x (getWidthForLLVMType T ty) rmNearestTiesToEven)"
    by (simp add: defs)
  show "evalConstantExpr B FB T ty Instruction.FPExt p [ConstantFP t1 x]
     = mapE FConstant (FExt FB x (getWidthForLLVMType T ty) rmNearestTiesToEven)"
    by (simp add: defs)
  show "evalConstantExpr B FB T ty Instruction.UIToFP p [ConstantInt w v]
     = mapE FConstant (UToF FB (alloc v w) (getWidthForLLVMType T ty) rmNearestTiesToEven)"
    by (simp add: defs)
  show "evalConstantExpr B FB T ty Instruction.SIToFP p [ConstantInt w v]
     = mapE FConstant (SToF FB (alloc v w) (getWidthForLLVMType T ty) rmNearestTiesToEven)"
    by (simp add: defs)
  show "evalConstantExpr B FB T ty Instruction.FPToUI p [ConstantFP t1 x]
     = mapE Constant (FToU FB x (getWidthForLLVMType T ty) rmNearestTiesToEven)"
    by (simp add: defs)
  show "evalConstantExpr B FB T ty Instruction.FPToSI p [ConstantFP t1 x]
     = mapE Constant (FToS FB x (getWidthForLLVMType T ty) rmNearestTiesToEven)"
    by (simp add: defs)
qed

text \<open>
  C10 (\<^verbatim>\<open>FPTrunc\<close> and \<^verbatim>\<open>FPExt\<close>). On every operand list and for every declared type the
  fold of an \<^verbatim>\<open>FPTrunc\<close> node is the fold of the \<^verbatim>\<open>FPExt\<close> node with the same type
  and operands; on one operand both are the builder's single resize \<^verbatim>\<open>FExt\<close> of the
  folded operand to the declared width, under round-to-nearest-even.
\<close>

theorem fptrunc_is_fpext:
  "evalConstantExpr B FB T ty Instruction.FPTrunc p ops
     = evalConstantExpr B FB T ty Instruction.FPExt p ops
   \<and> evalConstantExpr B FB T ty Instruction.FPTrunc p [c]
     = bindE (evalConstant B FB T c) (\<lambda>v.
       bindE (cast_FConstantExpr (Some v)) (\<lambda>f.
         mapE FConstant (FExt FB f (getWidthForLLVMType T ty) rmNearestTiesToEven)))"
proof (intro conjI)
  show "evalConstantExpr B FB T ty Instruction.FPTrunc p ops
     = evalConstantExpr B FB T ty Instruction.FPExt p ops"
    by (simp add: evalConstantExpr.simps cong: sum.case_cong)
  show "evalConstantExpr B FB T ty Instruction.FPTrunc p [c]
     = bindE (evalConstant B FB T c) (\<lambda>v.
       bindE (cast_FConstantExpr (Some v)) (\<lambda>f.
         mapE FConstant (FExt FB f (getWidthForLLVMType T ty) rmNearestTiesToEven)))"
    by (simp add: evalConstantExpr.simps mapE_def bindE_def split: sum.splits)
qed

subsection \<open>Pointer casts\<close>



end
